theory Spec2Isabelle
  imports Complex_Main
begin

section \<open>Python values, errors and containers\<close>

text \<open>
  Every exception the modelled code can raise is a value; a computation returns
  \<open>Inl e\<close> when it raises \<open>e\<close> and \<open>Inr v\<close> when it returns \<open>v\<close>.
  \<open>UnboundLocalError\<close> is what Python raises when a local variable is read before
  any assignment to it has run.
\<close>

datatype py_error =
  KeyError | IndexError | TypeError | AttributeError | ValueError
  | UnboundLocalError | JSONDecodeError | ConnectionError

definition bind_r :: "py_error + 'a \<Rightarrow> ('a \<Rightarrow> py_error + 'b) \<Rightarrow> py_error + 'b" where
  "bind_r m f = (case m of Inl e \<Rightarrow> Inl e | Inr v \<Rightarrow> f v)"

text \<open>\<open>xs.index(x)\<close>: the first position of an element equal to \<open>x\<close>, ValueError if there is none.\<close>

fun index :: "'a list \<Rightarrow> 'a \<Rightarrow> py_error + nat" where
  "index [] x = Inl ValueError"
| "index (y # ys) x = (if y = x then Inr 0 else bind_r (index ys x) (\<lambda>i. Inr (Suc i)))"

text \<open>\<open>sep.join(parts)\<close>.\<close>

fun join :: "string \<Rightarrow> string list \<Rightarrow> string" where
  "join sep [] = []"
| "join sep [w] = w"
| "join sep (w # v # ws) = w @ sep @ join sep (v # ws)"

section \<open>Context extraction (entity\_linking.py)\<close>

text \<open>
  \<open>re.split('\s', text)\<close> cuts the text at every single whitespace character, so two
  adjacent blanks give an empty word and the empty text gives one empty word. Texts are
  lists of characters; the whitespace class is what \<open>\s\<close> matches among the ASCII
  characters (blank, tab, line feed, vertical tab, form feed, carriage return and the four
  separators 0x1C to 0x1F).
\<close>

definition is_space :: "char \<Rightarrow> bool" where
  "is_space c = (c \<in> set [CHR '' '', CHR 0x09, CHR 0x0A, CHR 0x0B, CHR 0x0C, CHR 0x0D,
                         CHR 0x1C, CHR 0x1D, CHR 0x1E, CHR 0x1F])"

fun split_ws :: "string \<Rightarrow> string list" where
  "split_ws [] = [[]]"
| "split_ws (c # cs) =
     (if is_space c then [] # split_ws cs
      else (case split_ws cs of w # ws \<Rightarrow> (c # w) # ws | [] \<Rightarrow> [[c]]))"

text \<open>
  The anchor loop shared by both granularities:
  \<^verbatim>\<open>for unit in units: character_count += len(unit) + extra
                     if character_count > start_char: selected = units.index(unit); break\<close>
  with \<open>extra = 0\<close> for sentences and \<open>extra = 1\<close> for words. The result is \<open>None\<close>
  when the loop ends without reaching the \<open>break\<close>, which leaves the local variable unassigned.
\<close>

fun find_anchor :: "string list \<Rightarrow> int \<Rightarrow> string list \<Rightarrow> int \<Rightarrow> int \<Rightarrow> (py_error + nat) option" where
  "find_anchor units extra [] character_count start_char = None"
| "find_anchor units extra (u # rest) character_count start_char =
     (let character_count' = character_count + int (length u) + extra
      in if character_count' > start_char then Some (index units u)
         else find_anchor units extra rest character_count' start_char)"

text \<open>Reading the local variable assigned in the loop.\<close>

definition read_selected :: "(py_error + nat) option \<Rightarrow> py_error + nat" where
  "read_selected sel = (case sel of None \<Rightarrow> Inl UnboundLocalError | Some r \<Rightarrow> r)"

text \<open>\<open>clip_function = lambda x: min(max(x, 0), len(units)-1)\<close>.\<close>

definition clip_function :: "nat \<Rightarrow> int \<Rightarrow> int" where
  "clip_function n x = min (max x 0) (int n - 1)"

text \<open>\<open>list(np.arange(minimum_id, maximum_id))\<close> mapped through the clip function.\<close>

definition clipped_ids :: "nat \<Rightarrow> nat \<Rightarrow> int \<Rightarrow> int list" where
  "clipped_ids n selected context_window =
     (let minimum_id = int selected - context_window;
          maximum_id = int selected + context_window + 1
      in map (clip_function n) [minimum_id .. maximum_id - 1])"

text \<open>
  \<open>units[i]\<close> for an int \<open>i\<close>: negative indices count from the end, anything outside
  raises IndexError.
\<close>

definition item :: "'a list \<Rightarrow> int \<Rightarrow> py_error + 'a" where
  "item xs i =
     (if 0 \<le> i \<and> i < int (length xs) then Inr (xs ! nat i)
      else if i < 0 \<and> - int (length xs) \<le> i then Inr (xs ! nat (int (length xs) + i))
      else Inl IndexError)"

fun items :: "'a list \<Rightarrow> int list \<Rightarrow> py_error + 'a list" where
  "items xs [] = Inr []"
| "items xs (i # is) = bind_r (item xs i) (\<lambda>x. bind_r (items xs is) (\<lambda>rest. Inr (x # rest)))"

text \<open>
  \<open>extract_context_by_words\<close>. The set of clipped ids is sorted before the join.
\<close>

definition extract_context_by_words :: "string \<Rightarrow> int \<Rightarrow> int \<Rightarrow> py_error + string" where
  "extract_context_by_words text start_char context_window =
     (let words = split_ws text;
          selected_word_id = find_anchor words 1 words 0 start_char
      in if context_window = 0
         then bind_r (read_selected selected_word_id) (\<lambda>i. item words (int i))
         else bind_r (read_selected selected_word_id) (\<lambda>i.
                bind_r (items words (sort (remdups (clipped_ids (length words) i context_window))))
                  (\<lambda>ws. Inr (join '' '' ws))))"

text \<open>
  \<open>extract_context_by_sentences\<close>. \<open>sent_tokenize\<close> is NLTK's sentence splitter, a
  parameter here. The clipped ids are put in a \<open>set\<close> and the join iterates that set
  directly: \<open>set_order\<close> is the order in which the Python runtime iterates a set built by
  inserting the given ids in that order; the language leaves it unspecified.
\<close>

definition extract_context_by_sentences ::
  "(string \<Rightarrow> string list) \<Rightarrow> (int list \<Rightarrow> int list) \<Rightarrow> string \<Rightarrow> int \<Rightarrow> int \<Rightarrow> py_error + string" where
  "extract_context_by_sentences sent_tokenize set_order text start_char context_window =
     (let sentences = sent_tokenize text;
          selected_sentence_id = find_anchor sentences 0 sentences 0 start_char
      in if context_window = 0
         then bind_r (read_selected selected_sentence_id) (\<lambda>i. item sentences (int i))
         else bind_r (read_selected selected_sentence_id) (\<lambda>i.
                bind_r (items sentences (set_order (clipped_ids (length sentences) i context_window)))
                  (\<lambda>ss. Inr (concat ss))))"

text \<open>
  CPython keeps a set of at most four entries in a table of eight slots; a small
  non-negative int \<open>k\<close> hashes to itself and sits in slot \<open>k mod 8\<close> when that slot is
  free, and iteration visits the slots in ascending order. \<open>slot_order\<close> is that order for
  ids whose slots do not collide.
\<close>

definition slot_order :: "int list \<Rightarrow> int list" where
  "slot_order ids = sort_key (\<lambda>k. k mod 8) (remdups ids)"

section \<open>JSON documents and the knowledge base\<close>

text \<open>
  A decoded JSON document as Python sees it: \<open>None\<close>, a boolean, an int, a float, a
  string, a list or a dict. Objects keep their keys in document order.
\<close>

datatype json =
  JNull | JBool bool | JNum int | JFloat real | JStr string | JArr "json list"
  | JObj "(string \<times> json) list"

text \<open>
  \<open>x[k]\<close> for a string key \<open>k\<close>: a dict raises KeyError when the key is missing; lists,
  strings, numbers and \<open>None\<close> raise TypeError for a string subscript.
\<close>

fun getitem :: "json \<Rightarrow> string \<Rightarrow> py_error + json" where
  "getitem (JObj kvs) k = (case map_of kvs k of None \<Rightarrow> Inl KeyError | Some v \<Rightarrow> Inr v)"
| "getitem (JArr xs) k = Inl TypeError"
| "getitem (JStr s) k = Inl TypeError"
| "getitem (JNum n) k = Inl TypeError"
| "getitem (JFloat r) k = Inl TypeError"
| "getitem (JBool b) k = Inl TypeError"
| "getitem JNull k = Inl TypeError"

text \<open>\<open>k in s\<close> for two strings is the substring test.\<close>

fun is_substring :: "string \<Rightarrow> string \<Rightarrow> bool" where
  "is_substring k [] = (k = [])"
| "is_substring k (c # cs) = (take (length k) (c # cs) = k \<or> is_substring k cs)"

text \<open>
  \<open>k in x\<close> for a string \<open>k\<close>: key membership in a dict, element membership in a list,
  substring test in a string, TypeError for numbers, booleans and \<open>None\<close>.
\<close>

fun contains :: "string \<Rightarrow> json \<Rightarrow> py_error + bool" where
  "contains k (JObj kvs) = Inr (k \<in> set (map fst kvs))"
| "contains k (JArr xs) = Inr (JStr k \<in> set xs)"
| "contains k (JStr s) = Inr (is_substring k s)"
| "contains k (JNum n) = Inl TypeError"
| "contains k (JFloat r) = Inl TypeError"
| "contains k (JBool b) = Inl TypeError"
| "contains k JNull = Inl TypeError"

text \<open>\<open>x.keys()\<close>: only a dict has the method.\<close>

fun keys :: "json \<Rightarrow> py_error + string list" where
  "keys (JObj kvs) = Inr (map fst kvs)"
| "keys (JArr xs) = Inl AttributeError"
| "keys (JStr s) = Inl AttributeError"
| "keys (JNum n) = Inl AttributeError"
| "keys (JFloat r) = Inl AttributeError"
| "keys (JBool b) = Inl AttributeError"
| "keys JNull = Inl AttributeError"

text \<open>
  \<open>for x in v\<close>: a dict yields its keys, a list its elements, a string its characters;
  anything else is not iterable.
\<close>

fun iter :: "json \<Rightarrow> py_error + json list" where
  "iter (JObj kvs) = Inr (map (\<lambda>kv. JStr (fst kv)) kvs)"
| "iter (JArr xs) = Inr xs"
| "iter (JStr s) = Inr (map (\<lambda>c. JStr [c]) s)"
| "iter (JNum n) = Inl TypeError"
| "iter (JFloat r) = Inl TypeError"
| "iter (JBool b) = Inl TypeError"
| "iter JNull = Inl TypeError"

text \<open>Truth value of a document in \<open>if item_info:\<close>.\<close>

fun truthy :: "json \<Rightarrow> bool" where
  "truthy JNull = False"
| "truthy (JBool b) = b"
| "truthy (JNum n) = (n \<noteq> 0)"
| "truthy (JFloat r) = (r \<noteq> 0)"
| "truthy (JStr s) = (s \<noteq> [])"
| "truthy (JArr xs) = (xs \<noteq> [])"
| "truthy (JObj kvs) = (kvs \<noteq> [])"

text \<open>
  The outcome of \<open>requests.get\<close>: the call itself raises (no connection, timeout), or it
  returns a response with a status code and a body; the body is \<open>None\<close> when it is not
  JSON, and then \<open>response.json()\<close> raises.
\<close>

datatype http_result = Raises py_error | Response int "json option"

definition response_json :: "json option \<Rightarrow> py_error + json" where
  "response_json body = (case body of None \<Rightarrow> Inl JSONDecodeError | Some d \<Rightarrow> Inr d)"

text \<open>
  The outcome of the full-text search request up to \<open>resp['query']['search']\<close>: the list of
  hits as (title, snippet) in relevance order, or the error raised on the way there.
\<close>

datatype search_result = SearchRaises py_error | SearchHits "(string \<times> string) list"

text \<open>
  The knowledge base the linkers talk to, one field per endpoint:
  \<^item> \<open>entity_data q\<close>: GET \<open>https://www.wikidata.org/wiki/Special:EntityData/{q}.json\<close>;
  \<^item> \<open>wbgetentities_titles article site\<close>: \<open>action=wbgetentities\<close> by title and site;
  \<^item> \<open>wbgetentities_ids qid lang\<close>: \<open>action=wbgetentities\<close> by id and language;
  \<^item> \<open>wikidata_search phrase lang\<close>: \<open>action=query&list=search\<close>.
  The same request gets the same answer throughout one call.
\<close>

record world =
  entity_data :: "string \<Rightarrow> http_result"
  wbgetentities_titles :: "string \<Rightarrow> string \<Rightarrow> http_result"
  wbgetentities_ids :: "string \<Rightarrow> string \<Rightarrow> http_result"
  wikidata_search :: "string \<Rightarrow> string \<Rightarrow> search_result"

text \<open>A Python dict with insertion order: assigning to a present key keeps its position.\<close>

fun dict_set :: "('k \<times> 'v) list \<Rightarrow> 'k \<Rightarrow> 'v \<Rightarrow> ('k \<times> 'v) list" where
  "dict_set [] k v = [(k, v)]"
| "dict_set ((k', v') # d) k v = (if k' = k then (k, v) # d else (k', v') # dict_set d k v)"

definition dict_of :: "('k \<times> 'v) list \<Rightarrow> ('k \<times> 'v) list" where
  "dict_of kvs = foldl (\<lambda>d kv. dict_set d (fst kv) (snd kv)) [] kvs"

section \<open>Candidate filter and retrieval (location and organization linkers)\<close>

text \<open>
  \<open>any(prop in data["entities"][qid]["claims"] for prop in self.filter_properties)\<close>:
  the subscripts are evaluated once per tested property, and the test stops at the first hit.
\<close>

fun any_prop_in_claims :: "json \<Rightarrow> string \<Rightarrow> string list \<Rightarrow> py_error + bool" where
  "any_prop_in_claims data qid [] = Inr False"
| "any_prop_in_claims data qid (p # ps) =
     bind_r (getitem data ''entities'') (\<lambda>es. bind_r (getitem es qid) (\<lambda>e.
       bind_r (getitem e ''claims'') (\<lambda>claims. bind_r (contains p claims) (\<lambda>b.
         if b then Inr True else any_prop_in_claims data qid ps))))"

text \<open>
  The body of the \<open>try\<close> in the filter loop and in the exact-match check: \<open>Inr True\<close> when
  the id is to be kept, \<open>Inr False\<close> when the two \<open>if\<close>s say no, \<open>Inl e\<close> when \<open>e\<close> is raised
  inside the \<open>try\<close>.
\<close>

definition type_check :: "string list \<Rightarrow> string \<Rightarrow> json option \<Rightarrow> py_error + bool" where
  "type_check filter_properties qid body =
     bind_r (response_json body) (\<lambda>data.
       bind_r (getitem data ''entities'') (\<lambda>es. bind_r (getitem es qid) (\<lambda>e.
         bind_r (getitem e ''type'') (\<lambda>entity_type.
           if entity_type = JStr ''item'' then any_prop_in_claims data qid filter_properties
           else Inr False))))"

text \<open>
  \<open>filter_location_qids\<close> and \<open>filter_organization_qids\<close> are the same loop over their
  own \<open>self.filter_properties\<close>. \<open>requests.get\<close> stands before the \<open>try\<close>: what it raises
  leaves the function. \<open>except KeyError\<close> and \<open>except Exception\<close> both print and go on
  to the next id.
\<close>

fun filter_qids :: "world \<Rightarrow> string list \<Rightarrow> string list \<Rightarrow> py_error + string list" where
  "filter_qids w filter_properties [] = Inr []"
| "filter_qids w filter_properties (qid # qid_list) =
     (case entity_data w qid of
        Raises e \<Rightarrow> Inl e
      | Response status_code body \<Rightarrow>
          bind_r (filter_qids w filter_properties qid_list) (\<lambda>rest.
            if status_code = 200
            then (case type_check filter_properties qid body of
                    Inr True \<Rightarrow> Inr (qid # rest)
                  | Inr False \<Rightarrow> Inr rest
                  | Inl e \<Rightarrow> Inr rest)
            else Inr rest))"

definition location_filter_properties :: "string list" where
  "location_filter_properties = [''P37'', ''P1082'', ''P150'', ''P1566'']"

definition organization_filter_properties :: "string list" where
  "organization_filter_properties = [''P452'', ''P355'', ''P740'', ''P112'', ''P1128'', ''P571'']"

definition filter_location_qids :: "world \<Rightarrow> string list \<Rightarrow> py_error + string list" where
  "filter_location_qids w qid_list = filter_qids w location_filter_properties qid_list"

definition filter_organization_qids :: "world \<Rightarrow> string list \<Rightarrow> py_error + string list" where
  "filter_organization_qids w qid_list = filter_qids w organization_filter_properties qid_list"

text \<open>\<open>xs[:n]\<close>: a negative \<open>n\<close> drops that many elements from the end.\<close>

definition slice_to :: "'a list \<Rightarrow> int \<Rightarrow> 'a list" where
  "slice_to xs n = (if 0 \<le> n then take (nat n) xs else take (nat (int (length xs) + n)) xs)"

text \<open>
  \<open>np.linspace(1, 0.01, num)\<close> over the reals: \<open>num\<close> evenly spaced samples from 1 down
  to 0.01 with both ends included, a single 1 for \<open>num = 1\<close>, nothing for \<open>num = 0\<close>,
  ValueError for a negative \<open>num\<close>. Rounding of the floating-point samples is not modelled.
\<close>

definition linspace_at :: "int \<Rightarrow> nat \<Rightarrow> real" where
  "linspace_at num i = (if num \<le> 1 then 1 else 1 + real i * ((1 / 100 - 1) / real_of_int (num - 1)))"

definition linspace :: "int \<Rightarrow> py_error + real list" where
  "linspace num = (if num < 0 then Inl ValueError else Inr (map (linspace_at num) [0 ..< nat num]))"

text \<open>
  The dict comprehension
  \<^verbatim>\<open>{qid: [snippet, weights[results_qids.index(qid)]]
     for qid, snippet in results_information.items() if qid in filtered_qids}\<close>.
\<close>

fun final_results ::
  "string list \<Rightarrow> string list \<Rightarrow> real list \<Rightarrow> (string \<times> string) list
     \<Rightarrow> (string \<times> string \<times> real) list \<Rightarrow> py_error + (string \<times> string \<times> real) list" where
  "final_results results_qids filtered_qids weights [] acc = Inr acc"
| "final_results results_qids filtered_qids weights ((qid, snippet) # pairs) acc =
     (if qid \<in> set filtered_qids
      then bind_r (index results_qids qid) (\<lambda>i. bind_r (item weights (int i)) (\<lambda>weight.
             final_results results_qids filtered_qids weights pairs (dict_set acc qid (snippet, weight))))
      else final_results results_qids filtered_qids weights pairs acc)"

text \<open>
  \<open>location_wikidata_search\<close> and \<open>organization_wikidata_search\<close> differ in the filter
  they call. A candidate set is the returned dict: id, snippet and prior weight, in
  insertion order.
\<close>

definition entity_wikidata_search ::
  "(world \<Rightarrow> string list \<Rightarrow> py_error + string list) \<Rightarrow> world \<Rightarrow> string \<Rightarrow> int \<Rightarrow> string
     \<Rightarrow> py_error + (string \<times> string \<times> real) list" where
  "entity_wikidata_search filter_entity_qids w search_phrase num_results lang_code =
     (case wikidata_search w search_phrase lang_code of
        SearchRaises e \<Rightarrow> Inl e
      | SearchHits hits \<Rightarrow>
          (let search_results = slice_to hits num_results;
               results_information = dict_of (filter (\<lambda>result. snd result \<noteq> '''') search_results);
               results_qids = map fst results_information
           in bind_r (filter_entity_qids w results_qids) (\<lambda>filtered_qids.
                bind_r (linspace num_results) (\<lambda>weights.
                  final_results results_qids filtered_qids weights results_information []))))"

definition location_wikidata_search ::
  "world \<Rightarrow> string \<Rightarrow> int \<Rightarrow> string \<Rightarrow> py_error + (string \<times> string \<times> real) list" where
  "location_wikidata_search = entity_wikidata_search filter_location_qids"

definition organization_wikidata_search ::
  "world \<Rightarrow> string \<Rightarrow> int \<Rightarrow> string \<Rightarrow> py_error + (string \<times> string \<times> real) list" where
  "organization_wikidata_search = entity_wikidata_search filter_organization_qids"

section \<open>Disambiguation (entity\_linking.py)\<close>

text \<open>\<open>weighted_scores.max()\<close>; numpy raises ValueError on an empty array.\<close>

definition array_max :: "real list \<Rightarrow> py_error + real" where
  "array_max scores = (case scores of [] \<Rightarrow> Inl ValueError | x # xs \<Rightarrow> Inr (fold max xs x))"

text \<open>
  \<open>context_entity_matching\<close>. The candidates are the dict returned by the search, in
  insertion order. \<open>encode\<close> is the sentence transformer and \<open>cos_sim\<close> the cosine
  similarity of two embeddings, both parameters; scores are real numbers, so floating-point
  rounding and NaN are not modelled.
\<close>

definition context_entity_matching ::
  "(string \<Rightarrow> 'v) \<Rightarrow> ('v \<Rightarrow> 'v \<Rightarrow> real) \<Rightarrow> string \<Rightarrow> ('k \<times> string \<times> real) list \<Rightarrow> py_error + 'k" where
  "context_entity_matching encode cos_sim context entity_candidates =
     (let entity_information = map snd entity_candidates;
          entity_names = map fst entity_candidates;
          entity_snippets = map fst entity_information;
          entity_weights = map snd entity_information;
          entity_snippets_embeddings = map encode entity_snippets;
          context_embedding = encode context;
          cos_scores = map (cos_sim context_embedding) entity_snippets_embeddings;
          weighted_scores = map (\<lambda>(c, w). c * w) (zip cos_scores entity_weights)
      in bind_r (array_max weighted_scores) (\<lambda>max_score.
           bind_r (index weighted_scores max_score) (\<lambda>top_entity_id.
             item entity_names (int top_entity_id))))"

text \<open>\<open>entity_label_matching\<close>: the candidates map a name to its weight, and the names are embedded.\<close>

definition entity_label_matching ::
  "(string \<Rightarrow> 'v) \<Rightarrow> ('v \<Rightarrow> 'v \<Rightarrow> real) \<Rightarrow> string \<Rightarrow> (string \<times> real) list \<Rightarrow> py_error + string" where
  "entity_label_matching encode cos_sim entity_label candidate_labels =
     (let entity_weights = map snd candidate_labels;
          entity_names = map fst candidate_labels;
          entity_names_embeddings = map encode entity_names;
          entity_label_embedding = encode entity_label;
          cos_scores = map (cos_sim entity_label_embedding) entity_names_embeddings;
          weighted_scores = map (\<lambda>(c, w). c * w) (zip cos_scores entity_weights)
      in bind_r (array_max weighted_scores) (\<lambda>max_score.
           bind_r (index weighted_scores max_score) (\<lambda>top_entity_id.
             item entity_names (int top_entity_id))))"

section \<open>Projection of a record (entity\_linking.py)\<close>

text \<open>\<open>get_entity_info\<close>; \<open>None\<close> is Python's \<open>None\<close>, returned for every status but 200.\<close>

definition get_entity_info :: "world \<Rightarrow> string \<Rightarrow> py_error + json option" where
  "get_entity_info w qid =
     (case entity_data w qid of
        Raises e \<Rightarrow> Inl e
      | Response status_code body \<Rightarrow>
          if status_code = 200
          then bind_r (response_json body) (\<lambda>data.
                 bind_r (getitem data ''entities'') (\<lambda>es.
                   bind_r (getitem es qid) (\<lambda>e. Inr (Some e))))
          else Inr None)"

text \<open>
  The language rule written out three times in the source, for the label, the description
  and the label of a referenced record:
  \<^verbatim>\<open>if lang_code in m.keys(): m[lang_code]["value"] else: m["en"]["value"]\<close>.
\<close>

definition localized :: "json \<Rightarrow> string \<Rightarrow> py_error + json" where
  "localized m lang_code =
     bind_r (keys m) (\<lambda>ks.
       if lang_code \<in> set ks
       then bind_r (getitem m lang_code) (\<lambda>l. getitem l ''value'')
       else bind_r (getitem m ''en'') (\<lambda>l. getitem l ''value''))"

text \<open>
  The \<open>try\<close> block that resolves a referenced record to its label. \<open>Some label\<close> is
  appended; \<open>None\<close> means nothing is appended: the status was not 200, or something was
  raised and the bare \<open>except\<close> went on to the next claim. Ids are strings in this
  model: an \<open>id\<close> entry that is not a string matches no key of a decoded object and is
  taken to yield no label.
\<close>

definition value_label :: "world \<Rightarrow> string \<Rightarrow> json \<Rightarrow> json option" where
  "value_label w lang_code v =
     (case getitem v ''id'' of
        Inl e \<Rightarrow> None
      | Inr (JStr value_id) \<Rightarrow>
          (case entity_data w value_id of
             Raises e \<Rightarrow> None
           | Response status_code body \<Rightarrow>
               if status_code = 200
               then (case bind_r (response_json body) (\<lambda>value_data.
                             bind_r (getitem value_data ''entities'') (\<lambda>es.
                               bind_r (getitem es value_id) (\<lambda>e.
                                 bind_r (getitem e ''labels'') (\<lambda>m. localized m lang_code)))) of
                       Inl e \<Rightarrow> None
                     | Inr label \<Rightarrow> Some label)
               else None)
      | Inr other \<Rightarrow> None)"

text \<open>The loop \<open>for claim in item_info["claims"][prop]\<close>, giving \<open>property_data\<close>.\<close>

fun claim_values :: "world \<Rightarrow> string \<Rightarrow> json list \<Rightarrow> py_error + json list" where
  "claim_values w lang_code [] = Inr []"
| "claim_values w lang_code (claim # claims) =
     bind_r (getitem claim ''mainsnak'') (\<lambda>mainsnak.
       bind_r (getitem mainsnak ''snaktype'') (\<lambda>snaktype.
         if snaktype = JStr ''value''
         then bind_r (getitem mainsnak ''datavalue'') (\<lambda>datavalue.
                bind_r (getitem datavalue ''value'') (\<lambda>v.
                  bind_r (contains ''id'' v) (\<lambda>has_id.
                    if has_id
                    then bind_r (claim_values w lang_code claims) (\<lambda>rest.
                           Inr (case value_label w lang_code v of
                                  None \<Rightarrow> rest | Some label \<Rightarrow> label # rest))
                    else bind_r (claim_values w lang_code claims) (\<lambda>rest. Inr (v # rest)))))
         else claim_values w lang_code claims))"

text \<open>
  What is stored for a property: the list itself when it is empty or has two or more
  values, the single value otherwise.
\<close>

definition collapse :: "json list \<Rightarrow> json" where
  "collapse property_data =
     (if length property_data = 0 then JArr property_data
      else if length property_data > 1 then JArr property_data else property_data ! 0)"

text \<open>
  The loop \<open>for prop in item_info["claims"]\<close> over the iterated keys. The property schema
  \<open>entity_properties\<close> maps a property id to the output field name. A key that is a list or
  a dict cannot be looked up in the schema (unhashable, TypeError); a number, boolean or
  \<open>None\<close> is in no schema.
\<close>

fun project_claims ::
  "world \<Rightarrow> (string \<times> string) list \<Rightarrow> string \<Rightarrow> json \<Rightarrow> json list \<Rightarrow> (string \<times> json) list
     \<Rightarrow> py_error + (string \<times> json) list" where
  "project_claims w entity_properties lang_code claims [] entity_info = Inr entity_info"
| "project_claims w entity_properties lang_code claims (JStr prop # props) entity_info =
     (case map_of entity_properties prop of
        None \<Rightarrow> project_claims w entity_properties lang_code claims props entity_info
      | Some field \<Rightarrow>
          bind_r (getitem claims prop) (\<lambda>prop_claims. bind_r (iter prop_claims) (\<lambda>cs.
            bind_r (claim_values w lang_code cs) (\<lambda>property_data.
              project_claims w entity_properties lang_code claims props
                (dict_set entity_info field (collapse property_data))))))"
| "project_claims w entity_properties lang_code claims (JArr xs # props) entity_info = Inl TypeError"
| "project_claims w entity_properties lang_code claims (JObj kvs # props) entity_info = Inl TypeError"
| "project_claims w entity_properties lang_code claims (JNum n # props) entity_info =
     project_claims w entity_properties lang_code claims props entity_info"
| "project_claims w entity_properties lang_code claims (JFloat r # props) entity_info =
     project_claims w entity_properties lang_code claims props entity_info"
| "project_claims w entity_properties lang_code claims (JBool b # props) entity_info =
     project_claims w entity_properties lang_code claims props entity_info"
| "project_claims w entity_properties lang_code claims (JNull # props) entity_info =
     project_claims w entity_properties lang_code claims props entity_info"

text \<open>\<open>extract_wikidata_entity_info\<close>; the result is the dict \<open>entity_info\<close>.\<close>

definition extract_wikidata_entity_info ::
  "world \<Rightarrow> string \<Rightarrow> (string \<times> string) list \<Rightarrow> string \<Rightarrow> py_error + (string \<times> json) list" where
  "extract_wikidata_entity_info w wikidata_qid entity_properties lang_code =
     bind_r (get_entity_info w wikidata_qid) (\<lambda>item_info.
       case item_info of
         None \<Rightarrow> Inr []
       | Some info \<Rightarrow>
           if truthy info
           then bind_r (getitem info ''labels'') (\<lambda>labels.
                  bind_r (localized labels lang_code) (\<lambda>entity_label.
                    bind_r (getitem info ''descriptions'') (\<lambda>descriptions.
                      bind_r (localized descriptions lang_code) (\<lambda>description.
                        bind_r (getitem info ''claims'') (\<lambda>claims.
                          bind_r (iter claims) (\<lambda>props.
                            project_claims w entity_properties lang_code claims props
                              (dict_set (dict_set [] ''label'' entity_label)
                                 ''description'' description)))))))
           else Inr [])"

section \<open>Exact lookup and the per-type resolvers\<close>

text \<open>
  \<open>check_wikimedia_disambiguation_page\<close> returns \<open>True\<close>, \<open>False\<close>, or nothing at all
  (\<open>None\<close>) when the entity exists and its description is something else.
\<close>

definition check_wikimedia_disambiguation_page :: "world \<Rightarrow> string \<Rightarrow> string \<Rightarrow> py_error + bool option" where
  "check_wikimedia_disambiguation_page w qid lang_code =
     (case wbgetentities_ids w qid lang_code of
        Raises e \<Rightarrow> Inl e
      | Response status_code body \<Rightarrow>
          bind_r (response_json body) (\<lambda>data.
            bind_r (contains ''entities'' data) (\<lambda>has_entities.
              bind_r (if has_entities
                      then bind_r (getitem data ''entities'') (\<lambda>es. contains qid es)
                      else Inr False) (\<lambda>exists.
                if exists
                then bind_r (getitem data ''entities'') (\<lambda>es. bind_r (getitem es qid) (\<lambda>e.
                       bind_r (getitem e ''descriptions'') (\<lambda>ds. bind_r (getitem ds lang_code) (\<lambda>d.
                         bind_r (getitem d ''value'') (\<lambda>description.
                           if description = JStr ''Wikimedia disambiguation page''
                           then Inr (Some True) else Inr None)))))
                else Inr (Some False)))))"

text \<open>
  \<open>list(resp['entities'])[0]\<close>: the first key of the object. Ids are strings in this
  model, so a first element that is not a string is reported as TypeError.
\<close>

definition first_entity :: "json \<Rightarrow> py_error + string" where
  "first_entity es =
     bind_r (iter es) (\<lambda>xs.
       case xs of [] \<Rightarrow> Inl IndexError | JStr q # rest \<Rightarrow> Inr q | other # rest \<Rightarrow> Inl TypeError)"

definition get_qnumber :: "world \<Rightarrow> string \<Rightarrow> string \<Rightarrow> py_error + string" where
  "get_qnumber w wikiarticle wikisite =
     (case wbgetentities_titles w wikiarticle wikisite of
        Raises e \<Rightarrow> Inl e
      | Response status_code body \<Rightarrow>
          bind_r (response_json body) (\<lambda>resp.
            bind_r (getitem resp ''entities'') (\<lambda>es.
              bind_r (first_entity es) (\<lambda>q_number.
                bind_r (check_wikimedia_disambiguation_page w q_number ''en'') (\<lambda>is_disambiguation.
                  if is_disambiguation = Some True then Inr ''-1'' else Inr q_number)))))"

text \<open>
  \<open>get_location_qnumber\<close> and \<open>get_organization_qnumber\<close>: the exact-title id, kept only
  when it passes the type check of the linker.
\<close>

definition get_entity_qnumber :: "string list \<Rightarrow> world \<Rightarrow> string \<Rightarrow> string \<Rightarrow> string \<Rightarrow> py_error + string" where
  "get_entity_qnumber filter_properties w wikiarticle wikisite lang_code =
     bind_r (get_qnumber w wikiarticle wikisite) (\<lambda>qid.
       case entity_data w qid of
         Raises e \<Rightarrow> Inl e
       | Response status_code body \<Rightarrow>
           if status_code = 200
           then (case type_check filter_properties qid body of
                   Inr True \<Rightarrow> Inr qid
                 | Inr False \<Rightarrow> Inr ''-1''
                 | Inl e \<Rightarrow> Inr ''-1'')
           else Inr ''-1'')"

definition get_location_qnumber :: "world \<Rightarrow> string \<Rightarrow> string \<Rightarrow> string \<Rightarrow> py_error + string" where
  "get_location_qnumber = get_entity_qnumber location_filter_properties"

definition get_organization_qnumber :: "world \<Rightarrow> string \<Rightarrow> string \<Rightarrow> string \<Rightarrow> py_error + string" where
  "get_organization_qnumber = get_entity_qnumber organization_filter_properties"

text \<open>
  \<open>location_entity_extraction\<close>. The context is extracted before the candidate set is
  tested for emptiness. The result is the projected dict, or the empty dict when the
  search left no candidate.
\<close>

definition location_entity_extraction ::
  "world \<Rightarrow> (string \<Rightarrow> 'v) \<Rightarrow> ('v \<Rightarrow> 'v \<Rightarrow> real) \<Rightarrow> (string \<times> string) list
     \<Rightarrow> string \<Rightarrow> string \<Rightarrow> int \<Rightarrow> int \<Rightarrow> int \<Rightarrow> string \<Rightarrow> py_error + (string \<times> json) list" where
  "location_entity_extraction w encode cos_sim location_properties
       text entity start_char num_search_results context_window lang_code =
     bind_r (get_location_qnumber w entity (lang_code @ ''wiki'') lang_code) (\<lambda>qid.
       if qid \<noteq> ''-1''
       then extract_wikidata_entity_info w qid location_properties lang_code
       else bind_r (location_wikidata_search w entity num_search_results lang_code) (\<lambda>search_results.
              bind_r (extract_context_by_words text start_char context_window) (\<lambda>context.
                if search_results = [] then Inr []
                else bind_r (context_entity_matching encode cos_sim context search_results) (\<lambda>top_entity.
                       extract_wikidata_entity_info w top_entity location_properties lang_code))))"

definition organization_entity_extraction ::
  "world \<Rightarrow> (string \<Rightarrow> 'v) \<Rightarrow> ('v \<Rightarrow> 'v \<Rightarrow> real) \<Rightarrow> (string \<times> string) list
     \<Rightarrow> string \<Rightarrow> string \<Rightarrow> int \<Rightarrow> int \<Rightarrow> int \<Rightarrow> string \<Rightarrow> py_error + (string \<times> json) list" where
  "organization_entity_extraction w encode cos_sim organization_properties
       text entity start_char num_search_results context_window lang_code =
     bind_r (get_organization_qnumber w entity (lang_code @ ''wiki'') lang_code) (\<lambda>qid.
       if qid \<noteq> ''-1''
       then extract_wikidata_entity_info w qid organization_properties lang_code
       else bind_r (organization_wikidata_search w entity num_search_results lang_code) (\<lambda>search_results.
              bind_r (extract_context_by_words text start_char context_window) (\<lambda>context.
                if search_results = [] then Inr []
                else bind_r (context_entity_matching encode cos_sim context search_results) (\<lambda>top_entity.
                       extract_wikidata_entity_info w top_entity organization_properties lang_code))))"

section \<open>The dispatcher (MultiEntityLinker.py)\<close>









section \<open>Notions used to state the properties\<close>

text \<open>
  The decision the filter loop takes for one id: the id is appended exactly when the
  request returns status 200 and the body of the \<open>try\<close> reaches the \<open>append\<close>.
\<close>

definition passes_filter :: "world \<Rightarrow> string list \<Rightarrow> string \<Rightarrow> bool" where
  "passes_filter w filter_properties qid =
     (case entity_data w qid of
        Raises e \<Rightarrow> False
      | Response status_code body \<Rightarrow>
          status_code = 200 \<and> type_check filter_properties qid body = Inr True)"

text \<open>
  The ids the prior weights are indexed by: the keys of \<open>results_information\<close>, that is
  the hits among the first \<open>num_results\<close> that carry a snippet, each title once.
\<close>

definition snippet_qids :: "(string \<times> string) list \<Rightarrow> int \<Rightarrow> string list" where
  "snippet_qids hits num_results =
     map fst (dict_of (filter (\<lambda>result. snd result \<noteq> '''') (slice_to hits num_results)))"

text \<open>The weighted score of one candidate: cosine similarity times prior weight.\<close>

definition context_score :: "(string \<Rightarrow> 'v) \<Rightarrow> ('v \<Rightarrow> 'v \<Rightarrow> real) \<Rightarrow> string \<Rightarrow> 'k \<times> string \<times> real \<Rightarrow> real" where
  "context_score encode cos_sim context c = cos_sim (encode context) (encode (fst (snd c))) * snd (snd c)"

definition label_score :: "(string \<Rightarrow> 'v) \<Rightarrow> ('v \<Rightarrow> 'v \<Rightarrow> real) \<Rightarrow> string \<Rightarrow> string \<times> real \<Rightarrow> real" where
  "label_score encode cos_sim entity_label c = cos_sim (encode entity_label) (encode (fst c)) * snd c"

text \<open>
  The first candidate in iteration order whose score no other candidate exceeds: position
  \<open>i\<close> holds a maximal score and every earlier position a strictly smaller one.
\<close>

definition first_best :: "('c \<Rightarrow> real) \<Rightarrow> 'c list \<Rightarrow> nat \<Rightarrow> bool" where
  "first_best score cands i =
     (i < length cands \<and> (\<forall>j < length cands. score (cands ! j) \<le> score (cands ! i))
      \<and> (\<forall>j < i. score (cands ! j) < score (cands ! i)))"




section \<open>A small knowledge base for concrete runs\<close>

definition entity_response :: "string \<Rightarrow> json \<Rightarrow> http_result" where
  "entity_response qid e = Response 200 (Some (JObj [(''entities'', JObj [(qid, e)])]))"

definition value_text :: "string \<Rightarrow> json" where
  "value_text s = JObj [(''value'', JStr s)]"

definition item_claim :: "string \<Rightarrow> json" where
  "item_claim qid = JObj [(''mainsnak'', JObj [(''snaktype'', JStr ''value''),
       (''datavalue'', JObj [(''value'', JObj [(''id'', JStr qid)])])])]"

definition literal_claim :: "json \<Rightarrow> json" where
  "literal_claim v = JObj [(''mainsnak'', JObj [(''snaktype'', JStr ''value''),
       (''datavalue'', JObj [(''value'', v)])])]"

text \<open>
  Paris has a French label only, an English description, a country that resolves, two
  population figures, a containing unit whose record cannot be fetched, and one image.
\<close>

definition paris_claims :: "(string \<times> json) list" where
  "paris_claims =
     [(''P17'', JArr [item_claim ''Q142'']),
      (''P1082'', JArr [literal_claim (JObj [(''amount'', JStr ''+2145906'')]),
                        literal_claim (JObj [(''amount'', JStr ''+2165423'')])]),
      (''P131'', JArr [item_claim ''Q999'']),
      (''P18'', JArr [literal_claim (JStr ''Paris.jpg'')])]"

definition paris :: json where
  "paris = JObj [(''type'', JStr ''item''),
     (''labels'', JObj [(''fr'', value_text ''Paris'')]),
     (''descriptions'', JObj [(''en'', value_text ''capital of France'')]),
     (''claims'', JObj paris_claims)]"

text \<open>A property schema: five requested properties, the last one absent from Paris.\<close>

definition place_schema :: "(string \<times> string) list" where
  "place_schema = [(''P17'', ''country''), (''P1082'', ''population''), (''P131'', ''located in''),
     (''P18'', ''image''), (''P6'', ''head of government'')]"

definition france :: json where
  "france = JObj [(''type'', JStr ''item''),
     (''labels'', JObj [(''en'', value_text ''France''), (''fr'', value_text ''France'')]),
     (''descriptions'', JObj [(''en'', value_text ''country in Western Europe'')]),
     (''claims'', JObj [(''P37'', JArr [item_claim ''Q150''])])]"

definition rome :: json where
  "rome = JObj [(''type'', JStr ''item''),
     (''labels'', JObj [(''en'', value_text ''Rome'')]),
     (''descriptions'', JObj [(''en'', value_text ''capital of Italy'')]),
     (''claims'', JObj [(''P1082'', JArr [])])]"

definition rome_series :: json where
  "rome_series = JObj [(''type'', JStr ''item''),
     (''labels'', JObj [(''en'', value_text ''Rome'')]),
     (''descriptions'', JObj [(''en'', value_text ''television series'')]),
     (''claims'', JObj [(''P57'', JArr [item_claim ''Q142'']), (''P571'', JArr [])])]"

text \<open>
  The knowledge base: four records; \<open>Q8\<close> answers 200 with a body that is not JSON, the
  request for \<open>Q9\<close> raises, every other id answers 404. Only the title Paris has an exact
  match. The search for Rome gives four hits, the first without a snippet.
\<close>

definition kb :: world where
  "kb = \<lparr>
     entity_data = (\<lambda>q.
        if q = ''Q90'' then entity_response ''Q90'' paris
        else if q = ''Q142'' then entity_response ''Q142'' france
        else if q = ''Q220'' then entity_response ''Q220'' rome
        else if q = ''Q7'' then entity_response ''Q7'' rome_series
        else if q = ''Q8'' then Response 200 None
        else if q = ''Q9'' then Raises ConnectionError
        else Response 404 None),
     wbgetentities_titles = (\<lambda>article site.
        if article = ''Paris'' then Response 200 (Some (JObj [(''entities'', JObj [(''Q90'', JObj [])])]))
        else Response 200 (Some (JObj [(''entities'', JObj [(''-1'', JObj [])])]))),
     wbgetentities_ids = (\<lambda>q lang.
        if q = ''Q90''
        then Response 200 (Some (JObj [(''entities'',
               JObj [(''Q90'', JObj [(''descriptions'', JObj [(''en'', value_text ''capital of France'')])])])]))
        else Response 200 (Some (JObj [(''error'', JObj [])]))),
     wikidata_search = (\<lambda>phrase lang.
        if phrase = ''Rome''
        then SearchHits [(''Q1'', ''''), (''Q7'', ''television series about Rome''),
                         (''Q220'', ''capital of Italy''), (''Q8'', ''a place'')]
        else SearchHits []) \<rparr>"

text \<open>The same knowledge base, except that \<open>Q8\<close> now answers with a location record.\<close>

definition kb_more :: world where
  "kb_more = kb \<lparr> entity_data := (\<lambda>q. if q = ''Q8'' then entity_response ''Q8'' rome else entity_data kb q) \<rparr>"

text \<open>
  A stand-in for the embedding model: a text is its own embedding, and two texts are
  similar when both mention Italy.
\<close>

definition toy_encode :: "string \<Rightarrow> string" where
  "toy_encode s = s"

definition toy_cos_sim :: "string \<Rightarrow> string \<Rightarrow> real" where
  "toy_cos_sim a b = (if is_substring ''Italy'' a \<and> is_substring ''Italy'' b then 9 / 10 else 1 / 10)"





text \<open>A tokenizer that answers with nine two-character sentences.\<close>

definition nine_sentences :: "string \<Rightarrow> string list" where
  "nine_sentences text = [''A.'', ''B.'', ''C.'', ''D.'', ''E.'', ''F.'', ''G.'', ''H.'', ''I.'']"

section \<open>Basic facts\<close>

lemma bind_r_Inl [simp]: "bind_r (Inl e) f = Inl e"
  by (simp add: bind_r_def)

lemma bind_r_Inr [simp]: "bind_r (Inr v) f = f v"
  by (simp add: bind_r_def)

lemma bind_r_eq_Inr: "bind_r m f = Inr y \<longleftrightarrow> (\<exists>v. m = Inr v \<and> f v = Inr y)"
  by (cases m) simp_all

section \<open>Lists and dicts\<close>

lemma index_Inr:
  "index xs x = Inr i \<Longrightarrow> i < length xs \<and> xs ! i = x"
proof (induction xs arbitrary: i)
  case Nil
  then show ?case by simp
next
  case (Cons y ys)
  then show ?case
    by (cases "y = x") (auto simp: bind_r_eq_Inr)
qed

lemma index_nth_distinct:
  "distinct xs \<Longrightarrow> i < length xs \<Longrightarrow> index xs (xs ! i) = Inr i"
proof (induction xs arbitrary: i)
  case Nil
  then show ?case by simp
next
  case (Cons y ys)
  then show ?case by (cases i) auto
qed

lemma index_first: "index xs x = Inr i \<Longrightarrow> j < i \<Longrightarrow> xs ! j \<noteq> x"
proof (induction xs arbitrary: i j)
  case Nil
  then show ?case by simp
next
  case (Cons y ys)
  then show ?case
    by (cases "y = x"; cases j) (auto simp: bind_r_eq_Inr)
qed

lemma index_mem: "x \<in> set xs \<Longrightarrow> \<exists>i. index xs x = Inr i"
  by (induction xs) auto

lemma keys_dict_set: "fst ` set (dict_set d k v) = insert k (fst ` set d)"
  by (induction d k v rule: dict_set.induct) auto

lemma distinct_dict_set: "distinct (map fst d) \<Longrightarrow> distinct (map fst (dict_set d k v))"
  by (induction d k v rule: dict_set.induct) (auto simp: keys_dict_set)

lemma dict_set_fresh: "k \<notin> fst ` set d \<Longrightarrow> dict_set d k v = d @ [(k, v)]"
  by (induction d k v rule: dict_set.induct) auto


lemma length_dict_set: "length (dict_set d k v) \<le> Suc (length d)"
  by (induction d k v rule: dict_set.induct) auto

lemma foldl_dict_set_distinct:
  "distinct (map fst d) \<Longrightarrow> distinct (map fst (foldl (\<lambda>d kv. dict_set d (fst kv) (snd kv)) d kvs))"
  by (induction kvs arbitrary: d) (auto simp: distinct_dict_set)

lemma foldl_dict_set_length:
  "length (foldl (\<lambda>d kv. dict_set d (fst kv) (snd kv)) d kvs) \<le> length d + length kvs"
proof (induction kvs arbitrary: d)
  case Nil
  show ?case by simp
next
  case (Cons kv kvs)
  show ?case using Cons[of "dict_set d (fst kv) (snd kv)"] length_dict_set[of d "fst kv" "snd kv"]
    by simp
qed

lemma distinct_dict_of: "distinct (map fst (dict_of kvs))"
  by (simp add: dict_of_def foldl_dict_set_distinct)

lemma length_dict_of: "length (dict_of kvs) \<le> length kvs"
  using foldl_dict_set_length[of "[]" kvs] by (simp add: dict_of_def)

lemma length_slice_to: "0 \<le> n \<Longrightarrow> length (slice_to xs n) \<le> nat n"
  by (simp add: slice_to_def)

section \<open>The filter loop and the candidate dict\<close>

text \<open>The filter keeps exactly the ids that pass, when it returns.\<close>

lemma filter_qids_Inr:
  "filter_qids w fp qs = Inr r \<Longrightarrow> r = filter (passes_filter w fp) qs"
proof (induction qs arbitrary: r)
  case Nil
  then show ?case by simp
next
  case (Cons q qs)
  show ?case
  proof (cases "entity_data w q")
    case (Raises e)
    with Cons.prems show ?thesis by simp
  next
    case (Response st body)
    with Cons.prems obtain rest where rest: "filter_qids w fp qs = Inr rest"
      by (auto simp: bind_r_eq_Inr)
    from Cons.IH[OF rest] have ih: "rest = filter (passes_filter w fp) qs" .
    have pq: "passes_filter w fp q \<longleftrightarrow> st = 200 \<and> type_check fp q body = Inr True"
      using Response by (simp add: passes_filter_def)
    from Cons.prems Response rest ih show ?thesis
      by (auto simp: pq split: if_splits sum.splits bool.splits)
  qed
qed

lemma filter_qids_total:
  "(\<And>q e. q \<in> set qs \<Longrightarrow> entity_data w q \<noteq> Raises e)
     \<Longrightarrow> filter_qids w fp qs = Inr (filter (passes_filter w fp) qs)"
proof (induction qs)
  case Nil
  show ?case by simp
next
  case (Cons q qs)
  then have ih: "filter_qids w fp qs = Inr (filter (passes_filter w fp) qs)" by simp
  show ?case
  proof (cases "entity_data w q")
    case (Raises e)
    with Cons.prems[of q e] show ?thesis by simp
  next
    case (Response st body)
    have pq: "passes_filter w fp q \<longleftrightarrow> st = 200 \<and> type_check fp q body = Inr True"
      using Response by (simp add: passes_filter_def)
    from Response ih show ?thesis
      by (auto simp: pq split: sum.splits bool.splits)
  qed
qed

lemma final_results_shape:
  "final_results rq fq ws pairs acc = Inr res \<Longrightarrow> distinct (map fst pairs)
     \<Longrightarrow> fst ` set acc \<inter> fst ` set pairs = {}
     \<Longrightarrow> res = acc @ map (\<lambda>(q, s). (q, s, ws ! (case index rq q of Inr i \<Rightarrow> i | Inl e \<Rightarrow> 0)))
                       (filter (\<lambda>(q, s). q \<in> set fq) pairs)"
proof (induction rq fq ws pairs acc arbitrary: res rule: final_results.induct)
  case (1 rq fq ws acc)
  then show ?case by simp
next
  case (2 rq fq ws qid snippet pairs acc)
  show ?case
  proof (cases "qid \<in> set fq")
    case False
    with 2 show ?thesis by auto
  next
    case True
    with "2.prems"(1) obtain i wt where i: "index rq qid = Inr i" and wt: "item ws (int i) = Inr wt"
      and rest: "final_results rq fq ws pairs (dict_set acc qid (snippet, wt)) = Inr res"
      by (auto simp: bind_r_eq_Inr)
    have fresh: "qid \<notin> fst ` set acc" using "2.prems"(3) by auto
    have acc': "dict_set acc qid (snippet, wt) = acc @ [(qid, snippet, wt)]"
      using fresh by (rule dict_set_fresh)
    have wt': "wt = ws ! i" using wt by (auto simp: item_def split: if_splits)
    have disj: "fst ` set (dict_set acc qid (snippet, wt)) \<inter> fst ` set pairs = {}"
      using "2.prems"(2,3) by (auto simp: keys_dict_set)
    have "res = dict_set acc qid (snippet, wt) @ map (\<lambda>(q, s). (q, s, ws ! (case index rq q of Inr i \<Rightarrow> i | Inl e \<Rightarrow> 0)))
                       (filter (\<lambda>(q, s). q \<in> set fq) pairs)"
      using "2.IH"(1)[OF True rest _ disj] "2.prems"(2) by simp
    with True i wt' acc' show ?thesis by simp
  qed
qed

section \<open>Retrieval: filter, weights and order\<close>

lemma linspace_at_decreasing:
  "2 \<le> n \<Longrightarrow> i < j \<Longrightarrow> linspace_at n j < linspace_at n i"
proof -
  assume n: "2 \<le> n" and ij: "i < j"
  have c: "(1 / 100 - 1) / real_of_int (n - 1) < 0"
    using n by (simp add: divide_neg_pos)
  have "real i < real j" using ij by simp
  then have "real j * ((1 / 100 - 1) / real_of_int (n - 1)) < real i * ((1 / 100 - 1) / real_of_int (n - 1))"
    using c by (rule mult_strict_right_mono_neg)
  then show ?thesis using n by (simp add: linspace_at_def)
qed

lemma search_shape:
  assumes flt: "\<And>qs r. flt w qs = Inr r \<Longrightarrow> r = filter (passes_filter w fp) qs"
    and res: "entity_wikidata_search flt w phrase n lang = Inr cands"
    and hits: "wikidata_search w phrase lang = SearchHits hits"
  defines "ri \<equiv> dict_of (filter (\<lambda>result. snd result \<noteq> '''') (slice_to hits n))"
  shows "0 \<le> n \<and> length ri \<le> nat n
       \<and> cands = map (\<lambda>(q, s). (q, s, linspace_at n (case index (map fst ri) q of Inr i \<Rightarrow> i | Inl e \<Rightarrow> 0)))
                 (filter (\<lambda>(q, s). passes_filter w fp q) ri)"
proof -
  let ?rq = "map fst ri"
  from res hits obtain fq ws where fq: "flt w ?rq = Inr fq" and ws: "linspace n = Inr ws"
    and fr: "final_results ?rq fq ws ri [] = Inr cands"
    by (auto simp: entity_wikidata_search_def Let_def ri_def bind_r_eq_Inr)
  have n: "0 \<le> n" and ws': "ws = map (linspace_at n) [0 ..< nat n]"
    using ws by (auto simp: linspace_def split: if_splits)
  have "length ri \<le> length (filter (\<lambda>result. snd result \<noteq> '''') (slice_to hits n))"
    by (simp add: ri_def length_dict_of)
  also have "\<dots> \<le> length (slice_to hits n)" by (rule length_filter_le)
  also have "\<dots> \<le> nat n" by (rule length_slice_to[OF n])
  finally have len: "length ri \<le> nat n" .
  have dist: "distinct ?rq" by (simp add: ri_def distinct_dict_of)
  have fq': "fq = filter (passes_filter w fp) ?rq" using flt[OF fq] .
  have shape: "cands = map (\<lambda>(q, s). (q, s, ws ! (case index ?rq q of Inr i \<Rightarrow> i | Inl e \<Rightarrow> 0)))
                       (filter (\<lambda>(q, s). q \<in> set fq) ri)"
    using final_results_shape[OF fr dist] by simp
  have filt: "filter (\<lambda>(q, s). q \<in> set fq) ri = filter (\<lambda>(q, s). passes_filter w fp q) ri"
    by (rule filter_cong) (force simp: fq')+
  have "map (\<lambda>(q, s). (q, s, ws ! (case index ?rq q of Inr i \<Rightarrow> i | Inl e \<Rightarrow> 0)))
            (filter (\<lambda>(q, s). passes_filter w fp q) ri)
      = map (\<lambda>(q, s). (q, s, linspace_at n (case index ?rq q of Inr i \<Rightarrow> i | Inl e \<Rightarrow> 0)))
            (filter (\<lambda>(q, s). passes_filter w fp q) ri)"
  proof (rule map_cong[OF refl])
    fix x assume "x \<in> set (filter (\<lambda>(q, s). passes_filter w fp q) ri)"
    then have "fst x \<in> set ?rq" by auto
    then obtain i where i: "index ?rq (fst x) = Inr i" using index_mem by fastforce
    then have "i < nat n" using index_Inr[OF i] len by simp
    then have "ws ! i = linspace_at n i" by (simp add: ws')
    with i show "(case x of (q, s) \<Rightarrow> (q, s, ws ! (case index ?rq q of Inr i \<Rightarrow> i | Inl e \<Rightarrow> 0)))
        = (case x of (q, s) \<Rightarrow> (q, s, linspace_at n (case index ?rq q of Inr i \<Rightarrow> i | Inl e \<Rightarrow> 0)))"
      by (cases x) simp
  qed
  with shape filt n len show ?thesis by simp
qed

lemma search_passes:
  assumes flt: "\<And>qs r. flt w qs = Inr r \<Longrightarrow> r = filter (passes_filter w fp) qs"
    and res: "entity_wikidata_search flt w phrase n lang = Inr cands"
    and c: "c \<in> set cands"
  shows "passes_filter w fp (fst c)"
proof (cases "wikidata_search w phrase lang")
  case (SearchRaises e)
  with res show ?thesis by (simp add: entity_wikidata_search_def)
next
  case (SearchHits hits)
  from search_shape[OF flt res SearchHits] c show ?thesis by auto
qed

lemma search_weight:
  assumes flt: "\<And>qs r. flt w qs = Inr r \<Longrightarrow> r = filter (passes_filter w fp) qs"
    and res: "entity_wikidata_search flt w phrase n lang = Inr cands"
    and hits: "wikidata_search w phrase lang = SearchHits hits"
    and c: "c \<in> set cands"
  shows "\<exists>i. index (snippet_qids hits n) (fst c) = Inr i \<and> snd (snd c) = linspace_at n i"
proof -
  let ?ri = "dict_of (filter (\<lambda>result. snd result \<noteq> '''') (slice_to hits n))"
  from search_shape[OF flt res hits] c
  obtain q s where qs: "(q, s) \<in> set ?ri"
    and ceq: "c = (q, s, linspace_at n (case index (map fst ?ri) q of Inr i \<Rightarrow> i | Inl e \<Rightarrow> 0))"
    by auto
  from qs have "q \<in> set (map fst ?ri)" by force
  then obtain i where "index (map fst ?ri) q = Inr i" using index_mem by fastforce
  with ceq show ?thesis by (simp add: snippet_qids_def)
qed

lemma search_sorted:
  assumes flt: "\<And>qs r. flt w qs = Inr r \<Longrightarrow> r = filter (passes_filter w fp) qs"
    and res: "entity_wikidata_search flt w phrase n lang = Inr cands"
  shows "sorted_wrt (\<lambda>a b. snd (snd b) < snd (snd a)) cands"
proof (cases "wikidata_search w phrase lang")
  case (SearchRaises e)
  with res show ?thesis by (simp add: entity_wikidata_search_def)
next
  case (SearchHits hits)
  let ?ri = "dict_of (filter (\<lambda>result. snd result \<noteq> '''') (slice_to hits n))"
  let ?rq = "map fst ?ri"
  let ?W = "\<lambda>q. linspace_at n (case index ?rq q of Inr i \<Rightarrow> i | Inl e \<Rightarrow> 0)"
  from search_shape[OF flt res SearchHits]
  have n: "0 \<le> n" and len: "length ?ri \<le> nat n"
    and shape: "cands = map (\<lambda>(q, s). (q, s, ?W q)) (filter (\<lambda>(q, s). passes_filter w fp q) ?ri)"
    by auto
  have dist: "distinct ?rq" by (simp add: distinct_dict_of)
  have base: "sorted_wrt (\<lambda>a b. ?W (fst b) < ?W (fst a)) ?ri"
    unfolding sorted_wrt_iff_nth_less
  proof (intro allI impI)
    fix i j assume ij: "i < j" and j: "j < length ?ri"
    then have i: "i < length ?ri" by simp
    have "2 \<le> n" using ij j len by linarith
    moreover have "index ?rq (fst (?ri ! i)) = Inr i"
      using index_nth_distinct[OF dist, of i] i by simp
    moreover have "index ?rq (fst (?ri ! j)) = Inr j"
      using index_nth_distinct[OF dist, of j] j by simp
    ultimately show "?W (fst (?ri ! j)) < ?W (fst (?ri ! i))"
      using linspace_at_decreasing[of n i j] ij by simp
  qed
  have "sorted_wrt (\<lambda>a b. ?W (fst b) < ?W (fst a)) (filter (\<lambda>(q, s). passes_filter w fp q) ?ri)"
    using base by (rule sorted_wrt_filter)
  then show ?thesis
    unfolding shape by (simp add: sorted_wrt_map case_prod_unfold)
qed

lemma filter_location_sound: "filter_location_qids w qs = Inr r \<Longrightarrow> r = filter (passes_filter w location_filter_properties) qs"
  unfolding filter_location_qids_def by (rule filter_qids_Inr)

lemma filter_organization_sound: "filter_organization_qids w qs = Inr r \<Longrightarrow> r = filter (passes_filter w organization_filter_properties) qs"
  unfolding filter_organization_qids_def by (rule filter_qids_Inr)

section \<open>Retrieval: the claims\<close>

text \<open>
  Claim C7. Every id in the candidate set returned by \<open>location_wikidata_search\<close> or
  \<open>organization_wikidata_search\<close> has passed the filter of that linker: its request
  answered 200 and the type check kept it. The resolvers hand exactly this candidate set to
  \<open>context_entity_matching\<close>, so no rejected id is scored.
\<close>

theorem retrieved_candidates_pass_filter:
  "(location_wikidata_search w search_phrase num_results lang_code = Inr cands
      \<longrightarrow> (\<forall>c \<in> set cands. passes_filter w location_filter_properties (fst c)))
   \<and> (organization_wikidata_search w search_phrase num_results lang_code = Inr cands'
      \<longrightarrow> (\<forall>c \<in> set cands'. passes_filter w organization_filter_properties (fst c)))"
  unfolding location_wikidata_search_def organization_wikidata_search_def
  using search_passes[where flt=filter_location_qids and fp=location_filter_properties, OF filter_location_sound]
    search_passes[where flt=filter_organization_qids and fp=organization_filter_properties, OF filter_organization_sound]
  by blast

text \<open>
  The search for Rome: the location linker keeps the city, the organization linker keeps
  the television series (it has an inception date), and each kept id passes its filter.
\<close>

theorem retrieved_candidates_pass_filter_witness:
  "location_wikidata_search kb ''Rome'' 4 ''en'' = Inr [(''Q220'', ''capital of Italy'', 67 / 100)]
   \<and> organization_wikidata_search kb ''Rome'' 4 ''en'' = Inr [(''Q7'', ''television series about Rome'', 1)]
   \<and> passes_filter kb location_filter_properties ''Q220''
   \<and> passes_filter kb organization_filter_properties ''Q7''"
proof -
  have l: "location_wikidata_search kb ''Rome'' 4 ''en'' = Inr [(''Q220'', ''capital of Italy'', 67 / 100)]"
    by code_simp
  have r: "organization_wikidata_search kb ''Rome'' 4 ''en'' = Inr [(''Q7'', ''television series about Rome'', 1)]"
    by code_simp
  show ?thesis
    using l r retrieved_candidates_pass_filter[of kb "''Rome''" 4 "''en''"
        "[(''Q220'', ''capital of Italy'', 67 / 100)]" "[(''Q7'', ''television series about Rome'', 1)]"]
    by simp
qed

text \<open>
  Claim C4, amended. When a search with requested count \<open>n\<close> returns a candidate set,
  the prior weight of each candidate is the linear interpolation from 1 down to 0.01 over
  the \<open>n\<close> requested slots, taken at the position of the candidate among the hits that
  carry a snippet (the keys of \<open>results_information\<close>), not at its position in the search
  result. The weights of the returned candidates are strictly decreasing in the order of
  the candidate set, and they do not depend on the filter: whatever knowledge base answers
  the same search with the same hits, and whichever of the two linkers filters, a candidate
  present in both candidate sets has the same weight.
\<close>

theorem prior_weight_by_snippet_rank:
  assumes "location_wikidata_search w phrase n lang = Inr cands
           \<or> organization_wikidata_search w phrase n lang = Inr cands"
    and "wikidata_search w phrase lang = SearchHits hits"
  shows "(\<forall>c \<in> set cands. \<exists>i. index (snippet_qids hits n) (fst c) = Inr i \<and> snd (snd c) = linspace_at n i)
       \<and> sorted_wrt (\<lambda>a b. snd (snd b) < snd (snd a)) cands
       \<and> (\<forall>w' cands'. wikidata_search w' phrase lang = SearchHits hits
             \<and> (location_wikidata_search w' phrase n lang = Inr cands'
                 \<or> organization_wikidata_search w' phrase n lang = Inr cands')
            \<longrightarrow> (\<forall>c \<in> set cands. \<forall>c' \<in> set cands'. fst c' = fst c \<longrightarrow> snd (snd c') = snd (snd c)))"
proof -
  have wt: "\<exists>i. index (snippet_qids hits n) (fst c) = Inr i \<and> snd (snd c) = linspace_at n i"
    if "location_wikidata_search v phrase n lang = Inr cs \<or> organization_wikidata_search v phrase n lang = Inr cs"
      and "wikidata_search v phrase lang = SearchHits hits" and "c \<in> set cs" for v cs c
    using that search_weight[where flt=filter_location_qids and fp=location_filter_properties, OF filter_location_sound]
      search_weight[where flt=filter_organization_qids and fp=organization_filter_properties,
        OF filter_organization_sound]
    unfolding location_wikidata_search_def organization_wikidata_search_def by blast
  have srt: "sorted_wrt (\<lambda>a b. snd (snd b) < snd (snd a)) cands"
    using assms(1) search_sorted[where flt=filter_location_qids and fp=location_filter_properties, OF filter_location_sound]
      search_sorted[where flt=filter_organization_qids and fp=organization_filter_properties,
        OF filter_organization_sound]
    unfolding location_wikidata_search_def organization_wikidata_search_def by blast
  have indep: "snd (snd c') = snd (snd c)"
    if "wikidata_search w' phrase lang = SearchHits hits"
      and "location_wikidata_search w' phrase n lang = Inr cands'
           \<or> organization_wikidata_search w' phrase n lang = Inr cands'"
      and "c \<in> set cands" and "c' \<in> set cands'" and "fst c' = fst c" for w' cands' c c'
  proof -
    from wt[OF assms(1,2) that(3)] obtain i where
      i: "index (snippet_qids hits n) (fst c) = Inr i" "snd (snd c) = linspace_at n i" by blast
    from wt[OF that(2,1,4)] obtain j where
      j: "index (snippet_qids hits n) (fst c') = Inr j" "snd (snd c') = linspace_at n j" by blast
    from i j that(5) show ?thesis by simp
  qed
  show ?thesis using wt[OF assms] srt indep by blast
qed

text \<open>
  The search for Rome in two knowledge bases that differ in the record of \<open>Q8\<close>: the
  filter keeps \<open>Q8\<close> in one and drops it in the other, and \<open>Q220\<close> has weight 0.67 in both,
  the second of four samples.
\<close>

theorem prior_weight_by_snippet_rank_witness:
  "wikidata_search kb ''Rome'' ''en'' = SearchHits [(''Q1'', ''''), (''Q7'', ''television series about Rome''),
                         (''Q220'', ''capital of Italy''), (''Q8'', ''a place'')]
   \<and> wikidata_search kb_more ''Rome'' ''en'' = wikidata_search kb ''Rome'' ''en''
   \<and> location_wikidata_search kb ''Rome'' 4 ''en'' = Inr [(''Q220'', ''capital of Italy'', 67 / 100)]
   \<and> location_wikidata_search kb_more ''Rome'' 4 ''en''
        = Inr [(''Q220'', ''capital of Italy'', 67 / 100), (''Q8'', ''a place'', 34 / 100)]
   \<and> snippet_qids [(''Q1'', ''''), (''Q7'', ''television series about Rome''),
                         (''Q220'', ''capital of Italy''), (''Q8'', ''a place'')] 4 = [''Q7'', ''Q220'', ''Q8'']
   \<and> (\<exists>i. index [''Q7'', ''Q220'', ''Q8''] ''Q220'' = Inr i \<and> 67 / 100 = linspace_at 4 i)
   \<and> sorted_wrt (\<lambda>a b. snd (snd b) < snd (snd a))
        [(''Q220'', ''capital of Italy'', 67 / 100 :: real), (''Q8'', ''a place'', 34 / 100)]"
proof -
  let ?hits = "[(''Q1'', ''''), (''Q7'', ''television series about Rome''),
                         (''Q220'', ''capital of Italy''), (''Q8'', ''a place'')]"
  have h: "wikidata_search kb ''Rome'' ''en'' = SearchHits ?hits" by code_simp
  have h': "wikidata_search kb_more ''Rome'' ''en'' = SearchHits ?hits" by code_simp
  have l: "location_wikidata_search kb ''Rome'' 4 ''en'' = Inr [(''Q220'', ''capital of Italy'', 67 / 100)]"
    by code_simp
  have l': "location_wikidata_search kb_more ''Rome'' 4 ''en''
        = Inr [(''Q220'', ''capital of Italy'', 67 / 100), (''Q8'', ''a place'', 34 / 100)]"
    by code_simp
  have q: "snippet_qids ?hits 4 = [''Q7'', ''Q220'', ''Q8'']" by code_simp
  from prior_weight_by_snippet_rank[of kb "''Rome''" 4 "''en''" _ ?hits, OF disjI1, OF l h]
       prior_weight_by_snippet_rank[of kb_more "''Rome''" 4 "''en''" _ ?hits, OF disjI1, OF l' h']
  show ?thesis using h h' l l' q by simp
qed

text \<open>
  Claim C4 as stated fails. \<open>Q220\<close> is the third hit of the search (rank 2 counted from
  0), where the interpolation over four slots gives 0.34; the first hit has no snippet and
  is discarded before the weights are indexed, so \<open>Q220\<close> gets 0.67. For the organization
  linker the second hit \<open>Q7\<close> gets weight 1 instead of 0.67.
\<close>

theorem prior_weight_not_by_search_rank:
  "wikidata_search kb ''Rome'' ''en'' = SearchHits [(''Q1'', ''''), (''Q7'', ''television series about Rome''),
                         (''Q220'', ''capital of Italy''), (''Q8'', ''a place'')]
   \<and> index (map fst [(''Q1'', ''''), (''Q7'', ''television series about Rome''),
                         (''Q220'', ''capital of Italy''), (''Q8'', ''a place'')]) ''Q220'' = Inr 2
   \<and> location_wikidata_search kb ''Rome'' 4 ''en'' = Inr [(''Q220'', ''capital of Italy'', 67 / 100)]
   \<and> organization_wikidata_search kb ''Rome'' 4 ''en'' = Inr [(''Q7'', ''television series about Rome'', 1)]
   \<and> linspace 4 = Inr [1, 67 / 100, 34 / 100, 1 / 100]
   \<and> linspace_at 4 2 \<noteq> 67 / 100 \<and> linspace_at 4 1 \<noteq> 1"
  by code_simp

section \<open>Disambiguation: the first best candidate\<close>

lemma array_max_Max:
  assumes "scores \<noteq> []"
  shows "array_max scores = Inr (Max (set scores))"
proof (cases scores)
  case Nil
  with assms show ?thesis by simp
next
  case (Cons x xs)
  then show ?thesis using Max.set_eq_fold[of x xs] by (simp add: array_max_def)
qed

text \<open>The two numpy lines \<open>max\<close> and \<open>index\<close> pick the first position of a maximal score.\<close>

lemma first_maximum:
  assumes "cands \<noteq> []"
  shows "\<exists>i. first_best score cands i
           \<and> bind_r (array_max (map score cands)) (\<lambda>max_score.
                bind_r (index (map score cands) max_score) (\<lambda>top_entity_id.
                  item (map fst cands) (int top_entity_id)))
              = Inr (fst (cands ! i))"
proof -
  let ?ws = "map score cands"
  let ?M = "Max (set ?ws)"
  have ne: "?ws \<noteq> []" using assms by simp
  have "?M \<in> set ?ws" using ne by (intro Max_in) simp_all
  then obtain i where i: "index ?ws ?M = Inr i" using index_mem by fastforce
  from index_Inr[OF i] have il: "i < length cands" and "?ws ! i = ?M" by simp_all
  then have iM: "score (cands ! i) = ?M" by (simp only: nth_map)
  have le: "score (cands ! j) \<le> score (cands ! i)" if "j < length cands" for j
    using that iM by (simp add: Max_ge)
  have lt: "score (cands ! j) < score (cands ! i)" if "j < i" for j
  proof -
    have jl: "j < length cands" using that il by simp
    have "?ws ! j \<noteq> ?M" using index_first[OF i that] .
    then have a: "score (cands ! j) \<noteq> score (cands ! i)" using jl iM by simp
    have b: "score (cands ! j) \<le> score (cands ! i)" using le[OF jl] .
    from a b show ?thesis by simp
  qed
  have "first_best score cands i" using il le lt by (simp add: first_best_def)
  moreover have "item (map fst cands) (int i) = Inr (fst (cands ! i))"
    using il by (simp add: item_def)
  ultimately show ?thesis using i ne by (auto simp: array_max_Max)
qed

lemma first_best_unique: "first_best score cands i \<Longrightarrow> first_best score cands j \<Longrightarrow> i = j"
  unfolding first_best_def by (metis linorder_neqE_nat not_le)

text \<open>With pairwise distinct scores, the best entry is the same in every order.\<close>

lemma first_best_set:
  assumes d: "distinct (map score cands)" and s: "set cands' = set cands"
    and i: "first_best score cands i" and j: "first_best score cands' j"
  shows "cands' ! j = cands ! i"
proof -
  have inj: "inj_on score (set cands)" using d by (simp add: distinct_map)
  have i_in: "cands ! i \<in> set cands" and j_in: "cands' ! j \<in> set cands"
    using i j s by (auto simp: first_best_def)
  have "score (cands' ! j) \<le> score (cands ! i)"
    using i j_in unfolding first_best_def by (metis in_set_conv_nth)
  moreover have "score (cands ! i) \<le> score (cands' ! j)"
    using j i_in s unfolding first_best_def by (metis in_set_conv_nth)
  ultimately have "score (cands' ! j) = score (cands ! i)" by simp
  with inj i_in j_in show ?thesis by (auto dest: inj_onD)
qed

lemma context_scores:
  "map (\<lambda>(c, w). c * w)
     (zip (map (cos_sim (encode context)) (map encode (map fst (map snd cands)))) (map snd (map snd cands)))
   = map (context_score encode cos_sim context) cands"
  by (induction cands) (simp_all add: context_score_def)

lemma label_scores:
  "map (\<lambda>(c, w). c * w)
     (zip (map (cos_sim (encode entity_label)) (map encode (map fst labels))) (map snd labels))
   = map (label_score encode cos_sim entity_label) labels"
  by (induction labels) (simp_all add: label_score_def)

lemma context_entity_matching_first:
  "cands \<noteq> [] \<Longrightarrow> \<exists>i. first_best (context_score encode cos_sim context) cands i
      \<and> context_entity_matching encode cos_sim context cands = Inr (fst (cands ! i))"
  unfolding context_entity_matching_def Let_def context_scores by (rule first_maximum)

lemma entity_label_matching_first:
  "labels \<noteq> [] \<Longrightarrow> \<exists>i. first_best (label_score encode cos_sim entity_label) labels i
      \<and> entity_label_matching encode cos_sim entity_label labels = Inr (fst (labels ! i))"
  unfolding entity_label_matching_def Let_def label_scores by (rule first_maximum)

text \<open>
  Claim C8. For every non-empty candidate set, \<open>context_entity_matching\<close> and
  \<open>entity_label_matching\<close> return the first candidate in iteration order whose weighted
  score (cosine similarity times prior weight) is maximal, so a tie goes to the candidate
  seen first; and when the weighted scores are pairwise distinct, a candidate set with the
  same entries in any other insertion order gives the same winner.
\<close>

theorem matching_first_best_any_order:
  assumes "cands \<noteq> []" and "labels \<noteq> []"
  shows "(\<exists>i. first_best (context_score encode cos_sim context) cands i
            \<and> context_entity_matching encode cos_sim context cands = Inr (fst (cands ! i)))
       \<and> (\<exists>i. first_best (label_score encode cos_sim entity_label) labels i
            \<and> entity_label_matching encode cos_sim entity_label labels = Inr (fst (labels ! i)))
       \<and> (distinct (map (context_score encode cos_sim context) cands) \<and> set cands' = set cands
            \<longrightarrow> context_entity_matching encode cos_sim context cands'
                = context_entity_matching encode cos_sim context cands)
       \<and> (distinct (map (label_score encode cos_sim entity_label) labels) \<and> set labels' = set labels
            \<longrightarrow> entity_label_matching encode cos_sim entity_label labels'
                = entity_label_matching encode cos_sim entity_label labels)"
proof -
  have c: "context_entity_matching encode cos_sim context cands'
             = context_entity_matching encode cos_sim context cands"
    if d: "distinct (map (context_score encode cos_sim context) cands)" and s: "set cands' = set cands"
  proof -
    have ne: "cands' \<noteq> []" using s assms(1) by auto
    from context_entity_matching_first[OF assms(1), of encode cos_sim "context"] obtain i where
      i: "first_best (context_score encode cos_sim context) cands i"
         "context_entity_matching encode cos_sim context cands = Inr (fst (cands ! i))" by blast
    from context_entity_matching_first[OF ne, of encode cos_sim "context"] obtain j where
      j: "first_best (context_score encode cos_sim context) cands' j"
         "context_entity_matching encode cos_sim context cands' = Inr (fst (cands' ! j))" by blast
    from first_best_set[OF d s i(1) j(1)] i(2) j(2) show ?thesis by simp
  qed
  have l: "entity_label_matching encode cos_sim entity_label labels'
             = entity_label_matching encode cos_sim entity_label labels"
    if d: "distinct (map (label_score encode cos_sim entity_label) labels)" and s: "set labels' = set labels"
  proof -
    have ne: "labels' \<noteq> []" using s assms(2) by auto
    from entity_label_matching_first[OF assms(2), of encode cos_sim entity_label] obtain i where
      i: "first_best (label_score encode cos_sim entity_label) labels i"
         "entity_label_matching encode cos_sim entity_label labels = Inr (fst (labels ! i))" by blast
    from entity_label_matching_first[OF ne, of encode cos_sim entity_label] obtain j where
      j: "first_best (label_score encode cos_sim entity_label) labels' j"
         "entity_label_matching encode cos_sim entity_label labels' = Inr (fst (labels' ! j))" by blast
    from first_best_set[OF d s i(1) j(1)] i(2) j(2) show ?thesis by simp
  qed
  show ?thesis
    using context_entity_matching_first[OF assms(1), of encode cos_sim "context"]
      entity_label_matching_first[OF assms(2), of encode cos_sim entity_label] c l
    by blast
qed

text \<open>
  Three candidates with distinct scores give \<open>Q220\<close> in both orders; two labels with
  equal scores give the first of them.
\<close>

theorem matching_first_best_any_order_witness:
  "[(''Q7'', ''television series about Rome'', 1), (''Q220'', ''capital of Italy'', 67 / 100),
      (''Q8'', ''a place'', 34 / 100 :: real)] \<noteq> []
   \<and> [(''Rome, Italy'', 1 / 2 :: real), (''Italy'', 1 / 2)] \<noteq> []
   \<and> distinct (map (context_score toy_encode toy_cos_sim ''Rome in Italy'')
        [(''Q7'', ''television series about Rome'', 1), (''Q220'', ''capital of Italy'', 67 / 100),
         (''Q8'', ''a place'', 34 / 100)])
   \<and> context_entity_matching toy_encode toy_cos_sim ''Rome in Italy''
        [(''Q7'', ''television series about Rome'', 1), (''Q220'', ''capital of Italy'', 67 / 100),
         (''Q8'', ''a place'', 34 / 100)] = Inr ''Q220''
   \<and> context_entity_matching toy_encode toy_cos_sim ''Rome in Italy''
        [(''Q8'', ''a place'', 34 / 100), (''Q220'', ''capital of Italy'', 67 / 100),
         (''Q7'', ''television series about Rome'', 1)] = Inr ''Q220''
   \<and> first_best (label_score toy_encode toy_cos_sim ''Italy'')
        [(''Rome, Italy'', 1 / 2), (''Italy'', 1 / 2)] 0
   \<and> entity_label_matching toy_encode toy_cos_sim ''Italy''
        [(''Rome, Italy'', 1 / 2), (''Italy'', 1 / 2)] = Inr ''Rome, Italy''"
proof -
  let ?cands = "[(''Q7'', ''television series about Rome'', 1), (''Q220'', ''capital of Italy'', 67 / 100),
      (''Q8'', ''a place'', 34 / 100 :: real)]"
  let ?cands' = "[(''Q8'', ''a place'', 34 / 100 :: real), (''Q220'', ''capital of Italy'', 67 / 100),
      (''Q7'', ''television series about Rome'', 1)]"
  let ?labels = "[(''Rome, Italy'', 1 / 2 :: real), (''Italy'', 1 / 2)]"
  have ne: "?cands \<noteq> []" "?labels \<noteq> []" by simp_all
  have d: "distinct (map (context_score toy_encode toy_cos_sim ''Rome in Italy'') ?cands)"
    by code_simp
  have s: "set ?cands' = set ?cands" by auto
  have c: "context_entity_matching toy_encode toy_cos_sim ''Rome in Italy'' ?cands = Inr ''Q220''"
    by code_simp
  have fb: "first_best (label_score toy_encode toy_cos_sim ''Italy'') ?labels 0"
    by (simp add: first_best_def label_score_def toy_encode_def toy_cos_sim_def less_Suc_eq)
  have lm: "entity_label_matching toy_encode toy_cos_sim ''Italy'' ?labels = Inr ''Rome, Italy''"
    by code_simp
  from matching_first_best_any_order[OF ne, of toy_encode toy_cos_sim "''Rome in Italy''"
      "''Italy''" ?cands' ?labels] d s
  have "context_entity_matching toy_encode toy_cos_sim ''Rome in Italy'' ?cands'
          = context_entity_matching toy_encode toy_cos_sim ''Rome in Italy'' ?cands"
    by blast
  with c have c': "context_entity_matching toy_encode toy_cos_sim ''Rome in Italy'' ?cands' = Inr ''Q220''"
    by simp
  show ?thesis using ne d c c' fb lm by blast
qed

section \<open>Projection: which keys are written\<close>











section \<open>Projection: a fetch that fails\<close>

text \<open>
  Claim C10. When the fetch of the record answers with a status other than 200,
  \<open>get_entity_info\<close> returns \<open>None\<close> and \<open>extract_wikidata_entity_info\<close> returns the
  empty dict. That is the very value both resolvers return for a mention with no exact
  match and no candidate, so a caller cannot tell the two outcomes apart.
\<close>

theorem failed_fetch_gives_empty_record:
  assumes "entity_data w wikidata_qid = Response status_code body" and "status_code \<noteq> 200"
  shows "get_entity_info w wikidata_qid = Inr None
       \<and> extract_wikidata_entity_info w wikidata_qid entity_properties lang_code = Inr []
       \<and> (get_location_qnumber w entity (lang @ ''wiki'') lang = Inr ''-1''
            \<and> location_wikidata_search w entity num_search_results lang = Inr []
            \<and> extract_context_by_words text start_char context_window = Inr context
          \<longrightarrow> location_entity_extraction w encode cos_sim location_properties
                 text entity start_char num_search_results context_window lang
               = extract_wikidata_entity_info w wikidata_qid entity_properties lang_code)
       \<and> (get_organization_qnumber w entity (lang @ ''wiki'') lang = Inr ''-1''
            \<and> organization_wikidata_search w entity num_search_results lang = Inr []
            \<and> extract_context_by_words text start_char context_window = Inr context
          \<longrightarrow> organization_entity_extraction w encode cos_sim organization_properties
                 text entity start_char num_search_results context_window lang
               = extract_wikidata_entity_info w wikidata_qid entity_properties lang_code)"
proof -
  have g: "get_entity_info w wikidata_qid = Inr None"
    using assms by (simp add: get_entity_info_def)
  then have e: "extract_wikidata_entity_info w wikidata_qid entity_properties lang_code = Inr []"
    by (simp add: extract_wikidata_entity_info_def)
  have l: "location_entity_extraction w encode cos_sim location_properties
                 text entity start_char num_search_results context_window lang = Inr []"
    if "get_location_qnumber w entity (lang @ ''wiki'') lang = Inr ''-1''"
      and "location_wikidata_search w entity num_search_results lang = Inr []"
      and "extract_context_by_words text start_char context_window = Inr context"
    unfolding location_entity_extraction_def using that by simp
  have r: "organization_entity_extraction w encode cos_sim organization_properties
                 text entity start_char num_search_results context_window lang = Inr []"
    if "get_organization_qnumber w entity (lang @ ''wiki'') lang = Inr ''-1''"
      and "organization_wikidata_search w entity num_search_results lang = Inr []"
      and "extract_context_by_words text start_char context_window = Inr context"
    unfolding organization_entity_extraction_def using that by simp
  show ?thesis
  proof (intro conjI impI)
    show "get_entity_info w wikidata_qid = Inr None" by (rule g)
    show "extract_wikidata_entity_info w wikidata_qid entity_properties lang_code = Inr []"
      by (rule e)
  next
    assume "get_location_qnumber w entity (lang @ ''wiki'') lang = Inr ''-1''
            \<and> location_wikidata_search w entity num_search_results lang = Inr []
            \<and> extract_context_by_words text start_char context_window = Inr context"
    then have "location_entity_extraction w encode cos_sim location_properties
                 text entity start_char num_search_results context_window lang = Inr []"
      using l by blast
    then show "location_entity_extraction w encode cos_sim location_properties
                 text entity start_char num_search_results context_window lang
               = extract_wikidata_entity_info w wikidata_qid entity_properties lang_code"
      by (simp only: e)
  next
    assume "get_organization_qnumber w entity (lang @ ''wiki'') lang = Inr ''-1''
            \<and> organization_wikidata_search w entity num_search_results lang = Inr []
            \<and> extract_context_by_words text start_char context_window = Inr context"
    then have "organization_entity_extraction w encode cos_sim organization_properties
                 text entity start_char num_search_results context_window lang = Inr []"
      using r by blast
    then show "organization_entity_extraction w encode cos_sim organization_properties
                 text entity start_char num_search_results context_window lang
               = extract_wikidata_entity_info w wikidata_qid entity_properties lang_code"
      by (simp only: e)
  qed
qed

text \<open>
  The id \<open>Q999\<close> answers 404 and projects to the empty dict; the mention Oslo has no exact
  match and no search hit, and both resolvers return the empty dict for it.
\<close>

theorem failed_fetch_gives_empty_record_witness:
  "entity_data kb ''Q999'' = Response 404 None \<and> (404 :: int) \<noteq> 200
   \<and> get_entity_info kb ''Q999'' = Inr None
   \<and> extract_wikidata_entity_info kb ''Q999'' place_schema ''en'' = Inr []
   \<and> get_location_qnumber kb ''Oslo'' (''en'' @ ''wiki'') ''en'' = Inr ''-1''
   \<and> location_wikidata_search kb ''Oslo'' 4 ''en'' = Inr []
   \<and> get_organization_qnumber kb ''Oslo'' (''en'' @ ''wiki'') ''en'' = Inr ''-1''
   \<and> organization_wikidata_search kb ''Oslo'' 4 ''en'' = Inr []
   \<and> extract_context_by_words ''Oslo is far'' 0 1 = Inr ''Oslo is''
   \<and> location_entity_extraction kb toy_encode toy_cos_sim place_schema ''Oslo is far'' ''Oslo'' 0 4 1 ''en''
        = Inr []
   \<and> organization_entity_extraction kb toy_encode toy_cos_sim place_schema ''Oslo is far'' ''Oslo'' 0 4 1 ''en''
        = Inr []"
proof -
  have a: "entity_data kb ''Q999'' = Response 404 None" by code_simp
  have b: "(404 :: int) \<noteq> 200" by simp
  have c: "get_location_qnumber kb ''Oslo'' (''en'' @ ''wiki'') ''en'' = Inr ''-1''" by code_simp
  have d: "location_wikidata_search kb ''Oslo'' 4 ''en'' = Inr []" by code_simp
  have e: "get_organization_qnumber kb ''Oslo'' (''en'' @ ''wiki'') ''en'' = Inr ''-1''" by code_simp
  have f: "organization_wikidata_search kb ''Oslo'' 4 ''en'' = Inr []" by code_simp
  have g: "extract_context_by_words ''Oslo is far'' 0 1 = Inr ''Oslo is''" by code_simp
  from failed_fetch_gives_empty_record[OF a b, of place_schema "''en''" "''Oslo''" "''en''" 4
      "''Oslo is far''" 0 1 "''Oslo is''" toy_encode toy_cos_sim place_schema place_schema]
  show ?thesis using a b c d e f g by simp
qed

section \<open>The dispatcher: what a run prints and when it stops\<close>









section \<open>Context extraction: an offset beyond the text\<close>

lemma split_ws_nonempty: "split_ws t \<noteq> []"
  by (induction t) (auto split: list.splits)

text \<open>The counter of the word loop ends at the length of the text plus one.\<close>

lemma split_ws_count: "(\<Sum>w\<leftarrow>split_ws t. int (length w) + 1) = int (length t) + 1"
proof (induction t)
  case Nil
  show ?case by simp
next
  case (Cons c cs)
  then show ?case using split_ws_nonempty[of cs]
    by (cases "split_ws cs") auto
qed

text \<open>When the counter never passes the offset, the loop ends without an assignment.\<close>

lemma find_anchor_none:
  "0 \<le> extra \<Longrightarrow> cnt + (\<Sum>u\<leftarrow>rest. int (length u) + extra) \<le> start_char
     \<Longrightarrow> find_anchor units extra rest cnt start_char = None"
proof (induction rest arbitrary: cnt)
  case Nil
  show ?case by simp
next
  case (Cons u rest)
  have "0 \<le> (\<Sum>u\<leftarrow>rest. int (length u) + extra)"
    using Cons.prems(1) by (intro sum_list_nonneg) auto
  with Cons show ?case by (auto simp: Let_def add.assoc)
qed

text \<open>
  Claim C5. The claim asks that an offset strictly greater than the length of the text
  anchors to the last unit and yields a context. The code does not: for every text, every
  such offset and every window, the word loop ends without assigning
  \<open>selected_word_id\<close>, and the read that follows raises UnboundLocalError; the sentence
  loop does the same whenever the sentences together are no longer than the text.
\<close>

theorem offset_beyond_text_raises:
  assumes "int (length text) < start_char"
    and "(\<Sum>s\<leftarrow>sent_tokenize text. int (length s)) \<le> int (length text)"
  shows "extract_context_by_words text start_char context_window = Inl UnboundLocalError
       \<and> extract_context_by_sentences sent_tokenize set_order text start_char context_window
           = Inl UnboundLocalError"
proof -
  have "find_anchor (split_ws text) 1 (split_ws text) 0 start_char = None"
    using assms(1) split_ws_count[of "text"] by (intro find_anchor_none) simp_all
  moreover have "find_anchor (sent_tokenize text) 0 (sent_tokenize text) 0 start_char = None"
    using assms by (intro find_anchor_none) simp_all
  ultimately show ?thesis
    by (simp add: extract_context_by_words_def extract_context_by_sentences_def
        Let_def read_selected_def)
qed

theorem offset_beyond_text_raises_witness:
  "int (length ''A. B. C. D. E. F. G. H. I.'') < 27
   \<and> (\<Sum>s\<leftarrow>nine_sentences ''A. B. C. D. E. F. G. H. I.''. int (length s))
        \<le> int (length ''A. B. C. D. E. F. G. H. I.'')
   \<and> extract_context_by_words ''A. B. C. D. E. F. G. H. I.'' 27 1 = Inl UnboundLocalError
   \<and> extract_context_by_sentences nine_sentences slot_order ''A. B. C. D. E. F. G. H. I.'' 27 1
        = Inl UnboundLocalError"
proof -
  have h1: "int (length ''A. B. C. D. E. F. G. H. I.'') < 27"
    by simp
  have h2: "(\<Sum>s\<leftarrow>nine_sentences ''A. B. C. D. E. F. G. H. I.''. int (length s))
              \<le> int (length ''A. B. C. D. E. F. G. H. I.'')"
    by (simp add: nine_sentences_def)
  show ?thesis
    using h1 h2
      offset_beyond_text_raises[of "''A. B. C. D. E. F. G. H. I.''" 27 nine_sentences 1 slot_order]
    by blast
qed

section \<open>Context extraction: the selected units\<close>

lemma set_clipped_ids:
  "set (clipped_ids n selected w) = clip_function n ` {int selected - w .. int selected + w}"
  by (simp add: clipped_ids_def Let_def)

text \<open>The selected ids are the clamped range, without gaps.\<close>

lemma clipped_ids_interval:
  assumes "selected < n" and "0 \<le> w"
  shows "set (clipped_ids n selected w)
           = {max 0 (int selected - w) .. min (int n - 1) (int selected + w)}"
proof (intro equalityI subsetI)
  fix i assume "i \<in> set (clipped_ids n selected w)"
  then obtain x where "int selected - w \<le> x" "x \<le> int selected + w" "i = clip_function n x"
    by (auto simp: set_clipped_ids)
  then show "i \<in> {max 0 (int selected - w) .. min (int n - 1) (int selected + w)}"
    using assms by (auto simp: clip_function_def)
next
  fix i assume "i \<in> {max 0 (int selected - w) .. min (int n - 1) (int selected + w)}"
  then have "int selected - w \<le> i" "i \<le> int selected + w" "clip_function n i = i"
    by (auto simp: clip_function_def)
  then show "i \<in> set (clipped_ids n selected w)"
    unfolding set_clipped_ids by (metis atLeastAtMost_iff imageI)
qed

text \<open>A larger window never selects fewer units.\<close>

lemma clipped_ids_mono:
  "w \<le> w' \<Longrightarrow> set (clipped_ids n selected w) \<subseteq> set (clipped_ids n selected w')"
  unfolding set_clipped_ids by (intro image_mono) auto

lemma items_in_range:
  "(\<And>i. i \<in> set ids \<Longrightarrow> 0 \<le> i \<and> i < int (length xs))
     \<Longrightarrow> items xs ids = Inr (map (\<lambda>i. xs ! nat i) ids)"
  by (induction ids) (simp_all add: item_def)

text \<open>
  Whatever order the set is iterated in, the sentence function returns the sentences of the
  clamped range, each once, concatenated in that order.
\<close>

lemma sentence_context_selected:
  assumes "find_anchor (sent_tokenize doc) 0 (sent_tokenize doc) 0 start_char = Some (Inr selected)"
    and "selected < length (sent_tokenize doc)" and "context_window \<noteq> 0"
    and "set (set_order (clipped_ids (length (sent_tokenize doc)) selected context_window))
           = set (clipped_ids (length (sent_tokenize doc)) selected context_window)"
  shows "extract_context_by_sentences sent_tokenize set_order doc start_char context_window
           = Inr (concat (map (\<lambda>i. sent_tokenize doc ! nat i)
                    (set_order (clipped_ids (length (sent_tokenize doc)) selected context_window))))"
proof -
  let ?n = "length (sent_tokenize doc)"
  have "0 \<le> i \<and> i < int ?n"
    if "i \<in> set (set_order (clipped_ids ?n selected context_window))" for i
  proof -
    from that assms(4) obtain x where "i = clip_function ?n x"
      by (auto simp: set_clipped_ids)
    then show ?thesis using assms(2) by (auto simp: clip_function_def)
  qed
  then have "items (sent_tokenize doc) (set_order (clipped_ids ?n selected context_window))
          = Inr (map (\<lambda>i. sent_tokenize doc ! nat i) (set_order (clipped_ids ?n selected context_window)))"
    by (rule items_in_range)
  then show ?thesis using assms(1,3)
    by (simp add: extract_context_by_sentences_def Let_def read_selected_def)
qed

section \<open>Context extraction: the order of the selected sentences\<close>

text \<open>
  Claim C6. The claim asks that the selected sentences are concatenated in their
  original order. With nine sentences, the anchor at index 7 and a window of 1, the ids
  6, 7, 8 are selected; the sentence function joins them in the iteration order of the set,
  which is 8, 6, 7, and returns the last sentence first. The word function sorts the ids
  and returns the words of the same positions in order.
\<close>

theorem sentence_context_out_of_order:
  "extract_context_by_sentences nine_sentences slot_order ''A. B. C. D. E. F. G. H. I.'' 14 1
     = Inr ''I.G.H.''
   \<and> extract_context_by_words ''A. B. C. D. E. F. G. H. I.'' 21 1 = Inr ''G. H. I.''"
  by code_simp

section \<open>Candidate filter: a request that raises\<close>

text \<open>
  Claim C9. The claim asks that no lookup failure leaves the filter as an exception.
  The request for \<open>Q9\<close> raises ConnectionError; \<open>requests.get\<close> stands before the
  \<open>try\<close>, so both filters raise it instead of dropping the id.
\<close>

theorem filter_request_error_propagates:
  "filter_location_qids kb [''Q90'', ''Q9'', ''Q220''] = Inl ConnectionError
   \<and> filter_organization_qids kb [''Q90'', ''Q9'', ''Q220''] = Inl ConnectionError"
  by code_simp

end
